theory Spec2Isabelle
  imports Main
begin

section \<open>Python values, errors and the outside world\<close>

text \<open>
  The program is a thin layer over rasterio, geopandas, \<open>os.path\<close> and \<open>pathlib\<close>.
  Every exception the code can meet is a value of \<open>error\<close>. A \<open>ValueError\<close> carries its
  message, which tells the configuration error of \<open>GeoData\<close> from a \<open>ValueError\<close> raised
  by the standard library. \<open>LibraryError n\<close> stands for an error raised inside the
  geospatial library (I/O, format, geometry), which the code never catches.
\<close>

datatype error =
    ValueError string
  | AttributeError
  | IndexError
  | TypeError
  | FileExistsError
  | NotADirectoryError
  | LibraryError nat

text \<open>Opaque library values: a coordinate reference system, an affine transform, a geometry column.\<close>

datatype crs = CRS nat
datatype affine = Affine nat
datatype geometry = Geometry nat

text \<open>A GeoDataFrame: its \<open>.geometry\<close> column, its CRS and an opaque attribute table.\<close>

record layer =
  lgeometry :: geometry
  lcrs :: crs
  ltable :: nat

text \<open>The Python values the code passes around where the type is not fixed by the code.\<close>

datatype pyval =
    PNone
  | PStr string
  | PInt int
  | PCrs crs
  | PAffine affine
  | PLayer layer
  | POther nat

text \<open>A metadata dictionary (\<open>dataset.meta\<close>): string keys to values.\<close>

type_synonym meta = "string \<rightharpoonup> pyval"

text \<open>A numpy array: its shape and an opaque identifier of its pixel data.\<close>

record ndarray =
  shape :: "nat list"
  pixels :: nat

text \<open>An opened raster dataset, as far as the code reads it: \<open>.crs\<close> and \<open>.meta\<close>.\<close>

record dataset =
  ds_name :: string
  ds_crs :: crs
  ds_meta :: meta

datatype mode = ModeR | ModeW

datatype content =
    RasterFile meta "ndarray option"
  | VectorFile layer
  | OtherFile

text \<open>
  A location in the file system: the names from the root down to it, with \<open>.\<close>, \<open>..\<close>
  and empty names resolved away. There are no symbolic links in this model.
\<close>

type_synonym path = "string list"

text \<open>
  The world the program acts on: the working directory, the directories that exist
  (besides the root and the working directory with its ancestors, which always exist),
  the regular files that exist (with what the program wrote into them), and the dataset
  handles that were opened and that the code has not closed, one entry per
  \<open>rasterio.open\<close>, under the name it was opened with. Release of an object by the
  garbage collector is not part of the model.
\<close>

record world =
  cwd :: path
  dirs :: "path set"
  files :: "path \<rightharpoonup> content"
  handles :: "(string \<times> mode) list"

text \<open>
  The geospatial library, as the answers it gives. Each function returns the library's
  error or its result. \<open>create_err\<close>, \<open>write_err\<close> and \<open>to_file_err\<close> say whether opening
  a path for writing, writing the pixel array and writing a vector file fail.
  \<open>overlay\<close> is \<open>geopandas.overlay\<close> on two GeoDataFrames; \<open>overlay_bad_arg\<close> is the
  exception the library raises when an argument is not a GeoDataFrame.
\<close>

record geolib =
  rasterio_open :: "string \<Rightarrow> error + dataset"
  read_file :: "string \<Rightarrow> error + layer"
  to_crs :: "layer \<Rightarrow> pyval \<Rightarrow> error + layer"
  mask :: "dataset \<Rightarrow> geometry \<Rightarrow> bool \<Rightarrow> error + (ndarray \<times> affine)"
  merge :: "dataset list \<Rightarrow> error + (ndarray \<times> affine)"
  overlay :: "layer \<Rightarrow> layer \<Rightarrow> error + layer"
  overlay_bad_arg :: error
  create_err :: "string \<Rightarrow> meta \<Rightarrow> error option"
  write_err :: "string \<Rightarrow> ndarray \<Rightarrow> error option"
  to_file_err :: "layer \<Rightarrow> string \<Rightarrow> error option"

subsection \<open>Sequencing with exceptions\<close>

text \<open>
  A statement takes the world and returns its outcome together with the world it leaves
  behind, also when it raises: what was done before the exception stays done.
\<close>

type_synonym 'a action = "world \<Rightarrow> (error + 'a) \<times> world"

definition returnE :: "'a \<Rightarrow> 'a action" where
  "returnE a s = (Inr a, s)"

definition raiseE :: "error \<Rightarrow> 'a action" where
  "raiseE e s = (Inl e, s)"

definition liftE :: "error + 'a \<Rightarrow> 'a action" where
  "liftE r s = (r, s)"

definition thenE :: "'a action \<Rightarrow> ('a \<Rightarrow> 'b action) \<Rightarrow> 'b action" where
  "thenE m f s = (case m s of (Inl e, s') \<Rightarrow> (Inl e, s') | (Inr a, s') \<Rightarrow> f a s')"

text \<open>The same for expressions that do not touch the world.\<close>

definition bindS :: "error + 'a \<Rightarrow> ('a \<Rightarrow> error + 'b) \<Rightarrow> error + 'b" where
  "bindS r f = (case r of Inl e \<Rightarrow> Inl e | Inr a \<Rightarrow> f a)"

text \<open>Reading an attribute that an object may not have.\<close>

definition attr :: "'a option \<Rightarrow> error + 'a" where
  "attr a = (case a of None \<Rightarrow> Inl AttributeError | Some v \<Rightarrow> Inr v)"

subsection \<open>Paths\<close>

text \<open>Python truthiness of an \<open>Optional[str]\<close>: \<open>None\<close> and the empty string are false.\<close>

definition truthy :: "string option \<Rightarrow> bool" where
  "truthy p = (case p of None \<Rightarrow> False | Some s \<Rightarrow> s \<noteq> [])"

text \<open>\<open>os.path.join(a, b)\<close> of \<open>posixpath\<close>, for two arguments.\<close>

definition path_join :: "string \<Rightarrow> string \<Rightarrow> string" where
  "path_join a b =
     (if b \<noteq> [] \<and> hd b = CHR ''/'' then b
      else if a = [] \<or> last a = CHR ''/'' then a @ b
      else a @ ''/'' @ b)"

text \<open>
  \<open>os.path.dirname(p)\<close> of \<open>posixpath\<close>: everything up to the last separator, with the
  trailing separators stripped unless the head consists of separators only.
\<close>

definition dirname :: "string \<Rightarrow> string" where
  "dirname p =
     (let head = rev (dropWhile (\<lambda>c. c \<noteq> CHR ''/'') (rev p))
      in if head \<noteq> [] \<and> \<not> list_all (\<lambda>c. c = CHR ''/'') head
         then rev (dropWhile (\<lambda>c. c = CHR ''/'') (rev head))
         else head)"

text \<open>
  The names of a path string as the kernel and \<open>pathlib\<close> read it: the pieces between
  separators, without the empty ones and without \<open>.\<close>. The first argument of
  \<open>split_path\<close> is the piece read so far.
\<close>

fun split_path :: "string \<Rightarrow> string \<Rightarrow> string list" where
  "split_path acc [] = [acc]"
| "split_path acc (c # cs) =
     (if c = CHR ''/'' then acc # split_path [] cs else split_path (acc @ [c]) cs)"

definition components :: "string \<Rightarrow> string list" where
  "components p = filter (\<lambda>c. c \<noteq> [] \<and> c \<noteq> ''.'') (split_path [] p)"

definition is_abs :: "string \<Rightarrow> bool" where
  "is_abs p = (p \<noteq> [] \<and> hd p = CHR ''/'')"

text \<open>One name further from a directory: \<open>..\<close> goes to the parent (the root is its own parent).\<close>

definition step :: "path \<Rightarrow> string \<Rightarrow> path" where
  "step cur c = (if c = ''..'' then butlast cur else cur @ [c])"

text \<open>Where a path string leads: from the root if it is absolute, else from the working directory.\<close>

definition start :: "world \<Rightarrow> string \<Rightarrow> path" where
  "start s p = (if is_abs p then [] else cwd s)"

definition resolve :: "world \<Rightarrow> string \<Rightarrow> path" where
  "resolve s p = foldl step (start s p) (components p)"

text \<open>A directory exists there: one of \<open>dirs\<close>, or the working directory or an ancestor of it.\<close>

definition is_dir :: "world \<Rightarrow> path \<Rightarrow> bool" where
  "is_dir s q = (q \<in> dirs s \<or> take (length q) (cwd s) = q)"

text \<open>
  \<open>Path(p).mkdir(parents=True, exist_ok=True)\<close>, name by name from the start: an existing
  directory is entered, a missing one is created and entered, and a regular file in the
  way raises (\<open>NotADirectoryError\<close> from the first \<open>os.mkdir\<close> when it is not the last
  name and nothing was created yet, else \<open>FileExistsError\<close>). What was created before
  the error stays. The flag says whether a directory was created already.
\<close>

fun mkdir_walk :: "bool \<Rightarrow> path \<Rightarrow> string list \<Rightarrow> unit action" where
  "mkdir_walk made cur [] s = (Inr (), s)"
| "mkdir_walk made cur (c # cs) s =
     (if files s (step cur c) \<noteq> None then
        (Inl (if made \<or> cs = [] then FileExistsError else NotADirectoryError), s)
      else if is_dir s (step cur c) then mkdir_walk made (step cur c) cs s
      else mkdir_walk True (step cur c) cs (s\<lparr>dirs := insert (step cur c) (dirs s)\<rparr>))"

text \<open>
  A path string with a NUL character is refused by \<open>os.mkdir\<close> with a \<open>ValueError\<close>
  before the file system is touched.
\<close>

definition mkdir_p :: "string \<Rightarrow> unit action" where
  "mkdir_p p s =
     (if CHR 0x00 \<in> set p then (Inl (ValueError ''embedded null byte''), s)
      else mkdir_walk False (start s p) (components p) s)"

section \<open>GeoData\<close>

text \<open>
  The dataclass \<open>GeoData\<close>. \<open>raster_path\<close> and \<open>vector_path\<close> are \<open>Optional[str]\<close>
  (\<open>None\<close> is Python's \<open>None\<close>). \<open>output_raster_path\<close> and \<open>output_vector_path\<close> are
  attributes that \<open>__post_init__\<close> sets only in some branches: here \<open>None\<close> means that the
  attribute does not exist on the object.
\<close>

record GeoData =
  shapefile_path :: string
  raster_path :: "string option"
  vector_path :: "string option"
  output_path :: string
  output_raster_path :: "string option"
  output_vector_path :: "string option"

text \<open>The default of \<open>output_path\<close>: \<open>os.path.join(os.getcwd(), "output")\<close>.\<close>

definition default_output_path :: "string \<Rightarrow> string" where
  "default_output_path getcwd = path_join getcwd ''output''"

definition opt_str :: "string option \<Rightarrow> pyval" where
  "opt_str p = (case p of None \<Rightarrow> PNone | Some s \<Rightarrow> PStr s)"

text \<open>
  Attribute lookup on a \<open>GeoData\<close> object: the four dataclass fields, the two attributes
  \<open>__post_init__\<close> may have set, and \<open>AttributeError\<close> for every other data attribute.
\<close>

definition GeoData_getattr :: "GeoData \<Rightarrow> string \<Rightarrow> error + pyval" where
  "GeoData_getattr self name =
     (if name = ''shapefile_path'' then Inr (PStr (shapefile_path self))
      else if name = ''raster_path'' then Inr (opt_str (raster_path self))
      else if name = ''vector_path'' then Inr (opt_str (vector_path self))
      else if name = ''output_path'' then Inr (PStr (output_path self))
      else if name = ''output_raster_path'' then
        (case output_raster_path self of None \<Rightarrow> Inl AttributeError | Some p \<Rightarrow> Inr (PStr p))
      else if name = ''output_vector_path'' then
        (case output_vector_path self of None \<Rightarrow> Inl AttributeError | Some p \<Rightarrow> Inr (PStr p))
      else Inl AttributeError)"

text \<open>The message of the configuration error.\<close>

definition no_input_message :: string where
  "no_input_message = ''At least one of raster or vector file should exist.''"

text \<open>\<open>GeoData.__post_init__\<close>.\<close>

definition GeoData_post_init :: "GeoData \<Rightarrow> GeoData action" where
  "GeoData_post_init self =
     (if \<not> truthy (raster_path self) \<and> \<not> truthy (vector_path self) then raiseE (ValueError no_input_message)
      else
        thenE (mkdir_p (output_path self)) (\<lambda>_.
        thenE (if truthy (raster_path self) then
                 thenE (mkdir_p (path_join (output_path self) ''output_raster'')) (\<lambda>_.
                 returnE (self\<lparr>output_raster_path :=
                                  Some (path_join (output_path self) ''output_raster'')\<rparr>))
               else returnE self) (\<lambda>self1.
        if truthy (vector_path self1) then
          thenE (mkdir_p (path_join (output_path self1) ''output_vector'')) (\<lambda>_.
          returnE (self1\<lparr>output_vector_path :=
                            Some (path_join (output_path self1) ''output_vector'')\<rparr>))
        else returnE self1)))"

text \<open>The constructor: the generated \<open>__init__\<close> stores the four fields, then runs \<open>__post_init__\<close>.\<close>

definition GeoData_new ::
  "string \<Rightarrow> string option \<Rightarrow> string option \<Rightarrow> string \<Rightarrow> GeoData action" where
  "GeoData_new shp rp vp out =
     GeoData_post_init
       \<lparr>shapefile_path = shp, raster_path = rp, vector_path = vp, output_path = out,
        output_raster_path = None, output_vector_path = None\<rparr>"

section \<open>Library calls as the code makes them\<close>

text \<open>
  \<open>rasterio.open(path)\<close> in read mode: on success the dataset is open from then on.
\<close>

definition rasterio_open_r :: "geolib \<Rightarrow> string \<Rightarrow> dataset action" where
  "rasterio_open_r lib p s =
     (case rasterio_open lib p of
        Inl e \<Rightarrow> (Inl e, s)
      | Inr d \<Rightarrow> (Inr d, s\<lparr>handles := handles s @ [(p, ModeR)]\<rparr>))"

text \<open>Closing a handle removes the entry that was opened last for that path and mode.\<close>

definition close_handle :: "string \<times> mode \<Rightarrow> (string \<times> mode) list \<Rightarrow> (string \<times> mode) list" where
  "close_handle h hs = rev (remove1 h (rev hs))"

text \<open>
  \<open>with rasterio.open(path, "w", **meta) as dst: dst.write(arr)\<close>. Opening in write mode
  creates the file with the given metadata where the path leads; \<open>dst.write\<close> stores the
  pixel array; leaving the \<open>with\<close> block closes \<open>dst\<close>, also when \<open>dst.write\<close> raised.
\<close>

definition write_raster :: "geolib \<Rightarrow> string \<Rightarrow> meta \<Rightarrow> ndarray \<Rightarrow> unit action" where
  "write_raster lib path m arr s =
     (case create_err lib path m of
        Some e \<Rightarrow> (Inl e, s)
      | None \<Rightarrow>
          (let s1 = s\<lparr>files := (files s)(resolve s path \<mapsto> RasterFile m None),
                       handles := handles s @ [(path, ModeW)]\<rparr>
           in case write_err lib path arr of
                Some e \<Rightarrow> (Inl e, s1\<lparr>handles := close_handle (path, ModeW) (handles s1)\<rparr>)
              | None \<Rightarrow>
                  (Inr (), s1\<lparr>files := (files s1)(resolve s path \<mapsto> RasterFile m (Some arr)),
                              handles := close_handle (path, ModeW) (handles s1)\<rparr>)))"

text \<open>\<open>GeoDataFrame.to_file(path)\<close>.\<close>

definition vector_to_file :: "geolib \<Rightarrow> layer \<Rightarrow> string \<Rightarrow> unit action" where
  "vector_to_file lib lyr path s =
     (case to_file_err lib lyr path of
        Some e \<Rightarrow> (Inl e, s)
      | None \<Rightarrow> (Inr (), s\<lparr>files := (files s)(resolve s path \<mapsto> VectorFile lyr)\<rparr>))"

text \<open>
  \<open>gpd.overlay(df1, df2, how="intersection")\<close> as the code calls it: the second argument
  is whatever Python value the caller passes. The library works on GeoDataFrames only and
  raises for anything else.
\<close>

definition gpd_overlay :: "geolib \<Rightarrow> layer \<Rightarrow> pyval \<Rightarrow> error + layer" where
  "gpd_overlay lib df1 df2 =
     (case df2 of PLayer l \<Rightarrow> overlay lib df1 l | _ \<Rightarrow> Inl (overlay_bad_arg lib))"

text \<open>
  \<open>rasterio.merge.merge(datasets)\<close>: the library reads \<open>datasets[0]\<close> before anything
  else, so an empty list raises \<open>IndexError\<close> inside the library.
\<close>

definition rasterio_merge :: "geolib \<Rightarrow> dataset list \<Rightarrow> error + (ndarray \<times> affine)" where
  "rasterio_merge lib datasets =
     (case datasets of [] \<Rightarrow> Inl IndexError | _ \<Rightarrow> merge lib datasets)"

text \<open>\<open>xs[0]\<close> and \<open>arr.shape[i]\<close>.\<close>

definition index0 :: "'a list \<Rightarrow> error + 'a" where
  "index0 xs = (case xs of [] \<Rightarrow> Inl IndexError | x # _ \<Rightarrow> Inr x)"

definition shape_at :: "ndarray \<Rightarrow> nat \<Rightarrow> error + nat" where
  "shape_at a i = (if i < length (shape a) then Inr (shape a ! i) else Inl IndexError)"

text \<open>
  The metadata block shared by \<open>merge_raster\<close> and the croppers:
  \<open>meta = src.meta.copy(); meta.update({"driver": "GTiff", "height": arr.shape[1],
  "width": arr.shape[2], "transform": transform})\<close>.
\<close>

definition update_meta :: "meta \<Rightarrow> ndarray \<Rightarrow> affine \<Rightarrow> error + meta" where
  "update_meta m arr tr =
     bindS (shape_at arr 1) (\<lambda>h.
     bindS (shape_at arr 2) (\<lambda>w.
     Inr (m(''driver'' \<mapsto> PStr ''GTiff'',
            ''height'' \<mapsto> PInt (int h),
            ''width'' \<mapsto> PInt (int w),
            ''transform'' \<mapsto> PAffine tr))))"

section \<open>merge\_raster\<close>

text \<open>The list comprehension \<open>[rasterio.open(path) for path in raster_paths]\<close>.\<close>

fun open_all :: "geolib \<Rightarrow> string list \<Rightarrow> dataset list action" where
  "open_all lib [] = returnE []"
| "open_all lib (p # ps) =
     thenE (rasterio_open_r lib p) (\<lambda>d.
     thenE (open_all lib ps) (\<lambda>ds.
     returnE (d # ds)))"

definition merge_raster :: "geolib \<Rightarrow> string list \<Rightarrow> string option \<Rightarrow> unit action" where
  "merge_raster lib raster_paths out_path =
     thenE (open_all lib raster_paths) (\<lambda>raster_files.
     thenE (liftE (rasterio_merge lib raster_files)) (\<lambda>(raster_merged, raster_transform).
     thenE (liftE (index0 raster_files)) (\<lambda>first.
     thenE (liftE (update_meta (ds_meta first) raster_merged raster_transform)) (\<lambda>raster_meta.
     thenE (case out_path of
              None \<Rightarrow>
                liftE (bindS (index0 raster_paths) (\<lambda>p0.
                       Inr (path_join (dirname p0) ''raster_merged.tif'')))
            | Some p \<Rightarrow> returnE p) (\<lambda>out.
     write_raster lib out raster_meta raster_merged)))))"

section \<open>The croppers\<close>

subsection \<open>RasterCropper\<close>

record RasterCropper =
  rc_geo_data :: GeoData
  rc_raster :: dataset

text \<open>
  Construction runs \<open>__post_init__\<close>: \<open>self.raster = rasterio.open(self.geo_data.raster_path)\<close>.
  \<open>rasterio.open(None)\<close> raises \<open>TypeError\<close>.
\<close>

definition RasterCropper_new :: "geolib \<Rightarrow> GeoData \<Rightarrow> RasterCropper action" where
  "RasterCropper_new lib gd =
     (case raster_path gd of
        None \<Rightarrow> raiseE TypeError
      | Some p \<Rightarrow>
          thenE (rasterio_open_r lib p) (\<lambda>d.
          returnE \<lparr>rc_geo_data = gd, rc_raster = d\<rparr>))"

definition RasterCropper_transform_crs :: "geolib \<Rightarrow> RasterCropper \<Rightarrow> error + layer" where
  "RasterCropper_transform_crs lib self =
     bindS (read_file lib (shapefile_path (rc_geo_data self))) (\<lambda>shapefile.
     to_crs lib shapefile (PCrs (ds_crs (rc_raster self))))"

definition RasterCropper_crop :: "geolib \<Rightarrow> RasterCropper \<Rightarrow> error + (ndarray \<times> affine)" where
  "RasterCropper_crop lib self =
     bindS (RasterCropper_transform_crs lib self) (\<lambda>shapefile_transformed.
     mask lib (rc_raster self) (lgeometry shapefile_transformed) True)"

definition RasterCropper_execute :: "geolib \<Rightarrow> RasterCropper \<Rightarrow> unit action" where
  "RasterCropper_execute lib self =
     thenE (liftE (RasterCropper_crop lib self)) (\<lambda>(raster_cropped, raster_transform).
     thenE (liftE (update_meta (ds_meta (rc_raster self)) raster_cropped raster_transform))
       (\<lambda>raster_meta.
     thenE (liftE (attr (output_raster_path (rc_geo_data self)))) (\<lambda>output_raster_path.
     write_raster lib (path_join output_raster_path ''raster_cropped.tif'')
       raster_meta raster_cropped)))"

subsection \<open>VectorCropper\<close>

record VectorCropper =
  vc_geo_data :: GeoData
  vc_shapefile :: layer

definition VectorCropper_new :: "geolib \<Rightarrow> GeoData \<Rightarrow> VectorCropper action" where
  "VectorCropper_new lib gd =
     thenE (liftE (read_file lib (shapefile_path gd))) (\<lambda>shp.
     returnE \<lparr>vc_geo_data = gd, vc_shapefile = shp\<rparr>)"

text \<open>\<open>self.shapefile.to_crs(self.geo_data.get_crs)\<close>: the argument is an attribute lookup.\<close>

definition VectorCropper_transform_crs :: "geolib \<Rightarrow> VectorCropper \<Rightarrow> error + layer" where
  "VectorCropper_transform_crs lib self =
     bindS (GeoData_getattr (vc_geo_data self) ''get_crs'') (\<lambda>target.
     to_crs lib (vc_shapefile self) target)"

definition VectorCropper_crop :: "geolib \<Rightarrow> VectorCropper \<Rightarrow> error + layer" where
  "VectorCropper_crop lib self =
     bindS (VectorCropper_transform_crs lib self) (\<lambda>shapefile_transformed.
     gpd_overlay lib shapefile_transformed (opt_str (vector_path (vc_geo_data self))))"

definition VectorCropper_execute :: "geolib \<Rightarrow> VectorCropper \<Rightarrow> unit action" where
  "VectorCropper_execute lib self =
     thenE (liftE (VectorCropper_crop lib self)) (\<lambda>vector_cropped.
     thenE (liftE (attr (output_vector_path (vc_geo_data self)))) (\<lambda>output_vector_path.
     vector_to_file lib vector_cropped (path_join output_vector_path ''vector_cropped.shp'')))"

subsection \<open>BothCropper\<close>

record BothCropper =
  bc_geo_data :: GeoData
  bc_raster :: dataset
  bc_shapefile :: layer

definition BothCropper_new :: "geolib \<Rightarrow> GeoData \<Rightarrow> BothCropper action" where
  "BothCropper_new lib gd =
     (case raster_path gd of
        None \<Rightarrow> raiseE TypeError
      | Some p \<Rightarrow>
          thenE (rasterio_open_r lib p) (\<lambda>d.
          thenE (liftE (read_file lib (shapefile_path gd))) (\<lambda>shp.
          returnE \<lparr>bc_geo_data = gd, bc_raster = d, bc_shapefile = shp\<rparr>)))"

definition BothCropper_transform_crs :: "geolib \<Rightarrow> BothCropper \<Rightarrow> error + layer" where
  "BothCropper_transform_crs lib self =
     to_crs lib (bc_shapefile self) (PCrs (ds_crs (bc_raster self)))"

definition BothCropper_crop ::
  "geolib \<Rightarrow> BothCropper \<Rightarrow> error + (ndarray \<times> affine \<times> layer)" where
  "BothCropper_crop lib self =
     bindS (BothCropper_transform_crs lib self) (\<lambda>shapefile_transformed.
     bindS (mask lib (bc_raster self) (lgeometry shapefile_transformed) True)
       (\<lambda>(raster_cropped, raster_transform).
     bindS (gpd_overlay lib shapefile_transformed (opt_str (vector_path (bc_geo_data self))))
       (\<lambda>vector_cropped.
     Inr (raster_cropped, raster_transform, vector_cropped))))"

definition BothCropper_execute :: "geolib \<Rightarrow> BothCropper \<Rightarrow> unit action" where
  "BothCropper_execute lib self =
     thenE (liftE (BothCropper_crop lib self))
       (\<lambda>(raster_cropped, raster_transform, vector_cropped).
     thenE (liftE (update_meta (ds_meta (bc_raster self)) raster_cropped raster_transform))
       (\<lambda>raster_meta.
     thenE (liftE (attr (output_raster_path (bc_geo_data self)))) (\<lambda>output_raster_path.
     thenE (write_raster lib (path_join output_raster_path ''raster_cropped.tif'')
              raster_meta raster_cropped) (\<lambda>_.
     thenE (liftE (attr (output_vector_path (bc_geo_data self)))) (\<lambda>output_vector_path.
     vector_to_file lib vector_cropped
       (path_join output_vector_path ''vector_cropped.shp''))))))"

section \<open>Application\<close>

text \<open>
  The abstract class \<open>Cropper\<close> has exactly these three subclasses; \<open>cropper.execute()\<close>
  is a method call on whichever object the field holds.
\<close>

datatype Cropper =
    IsRasterCropper RasterCropper
  | IsVectorCropper VectorCropper
  | IsBothCropper BothCropper

fun Cropper_execute :: "geolib \<Rightarrow> Cropper \<Rightarrow> unit action" where
  "Cropper_execute lib (IsRasterCropper c) = RasterCropper_execute lib c"
| "Cropper_execute lib (IsVectorCropper c) = VectorCropper_execute lib c"
| "Cropper_execute lib (IsBothCropper c) = BothCropper_execute lib c"

record Application =
  geo_data :: GeoData
  cropper :: Cropper

definition Application_execute :: "geolib \<Rightarrow> Application \<Rightarrow> unit action" where
  "Application_execute lib self = Cropper_execute lib (cropper self)"

text \<open>\<open>RasterCropper(geo_data).execute()\<close>: construction followed by \<open>execute\<close>.\<close>

definition RasterCropper_run :: "geolib \<Rightarrow> GeoData \<Rightarrow> unit action" where
  "RasterCropper_run lib gd = thenE (RasterCropper_new lib gd) (RasterCropper_execute lib)"

section \<open>Derived notions and example inputs\<close>

text \<open>The locations \<open>mkdir\<close> passes through: one for each leading part of the names.\<close>

fun visited :: "path \<Rightarrow> string list \<Rightarrow> path list" where
  "visited cur [] = []"
| "visited cur (c # cs) = step cur c # visited (step cur c) cs"

text \<open>
  An empty world with working directory \<open>/work\<close>, and the world after constructing a
  raster-only job with output root \<open>out\<close>.
\<close>

definition world0 :: world where
  "world0 = \<lparr>cwd = [''work''], dirs = {}, files = Map.empty, handles = []\<rparr>"

definition world1 :: world where
  "world1 = \<lparr>cwd = [''work''],
             dirs = {[''work'', ''out''], [''work'', ''out'', ''output_raster'']},
             files = Map.empty, handles = []\<rparr>"

definition job_r :: GeoData where
  "job_r = \<lparr>shapefile_path = ''b.shp'', raster_path = Some ''r.tif'', vector_path = None,
            output_path = ''out'', output_raster_path = Some ''out/output_raster'',
            output_vector_path = None\<rparr>"

text \<open>
  An example library: three rasters can be opened, all with the same CRS and metadata;
  one shapefile can be read; reprojection sets the CRS; masking with \<open>crop=True\<close> and
  merging return fixed arrays; nothing fails on writing.
\<close>

definition meta0 :: meta where
  "meta0 = [''driver'' \<mapsto> PStr ''PNG'', ''count'' \<mapsto> PInt 1,
            ''height'' \<mapsto> PInt 100, ''width'' \<mapsto> PInt 200]"

definition ds0 :: "string \<Rightarrow> dataset" where
  "ds0 p = \<lparr>ds_name = p, ds_crs = CRS 32633, ds_meta = meta0\<rparr>"

definition shp_b :: layer where
  "shp_b = \<lparr>lgeometry = Geometry 7, lcrs = CRS 4326, ltable = 0\<rparr>"

definition arr_crop :: ndarray where
  "arr_crop = \<lparr>shape = [1, 40, 50], pixels = 11\<rparr>"

definition arr_merged :: ndarray where
  "arr_merged = \<lparr>shape = [1, 100, 400], pixels = 12\<rparr>"

definition lib0 :: geolib where
  "lib0 = \<lparr>rasterio_open =
             (\<lambda>p. if p = ''r.tif'' \<or> p = ''tiles/a.tif'' \<or> p = ''tiles/b.tif''
                  then Inr (ds0 p) else Inl (LibraryError 1)),
           read_file = (\<lambda>p. if p = ''b.shp'' then Inr shp_b else Inl (LibraryError 2)),
           to_crs =
             (\<lambda>l c. case c of PCrs c' \<Rightarrow> Inr (l\<lparr>lcrs := c'\<rparr>) | _ \<Rightarrow> Inl (LibraryError 3)),
           mask =
             (\<lambda>d g crop. if crop then Inr (arr_crop, Affine 5) else Inr (arr_merged, Affine 0)),
           merge = (\<lambda>ds. Inr (arr_merged, Affine 6)),
           overlay = (\<lambda>a b. Inr a),
           overlay_bad_arg = TypeError,
           create_err = (\<lambda>p m. None),
           write_err = (\<lambda>p a. None),
           to_file_err = (\<lambda>l p. None)\<rparr>"

text \<open>The same library, except that writing the pixel array fails.\<close>

definition lib_wfail :: geolib where
  "lib_wfail = lib0\<lparr>write_err := (\<lambda>p a. Some (LibraryError 9))\<rparr>"

text \<open>The metadata the example runs write, and a job with both inputs.\<close>

definition meta_crop :: meta where
  "meta_crop = meta0(''driver'' \<mapsto> PStr ''GTiff'', ''height'' \<mapsto> PInt 40,
                     ''width'' \<mapsto> PInt 50, ''transform'' \<mapsto> PAffine (Affine 5))"

definition meta_merged :: meta where
  "meta_merged = meta0(''driver'' \<mapsto> PStr ''GTiff'', ''height'' \<mapsto> PInt 100,
                       ''width'' \<mapsto> PInt 400, ''transform'' \<mapsto> PAffine (Affine 6))"

definition job_both :: GeoData where
  "job_both = \<lparr>shapefile_path = ''b.shp'', raster_path = Some ''r.tif'',
               vector_path = Some ''v.shp'', output_path = ''out'',
               output_raster_path = Some ''out/output_raster'',
               output_vector_path = Some ''out/output_vector''\<rparr>"





section \<open>Basic facts\<close>

lemma thenE_Inr:
  "thenE m f s = (Inr b, s') \<longleftrightarrow> (\<exists>a s1. m s = (Inr a, s1) \<and> f a s1 = (Inr b, s'))"
  by (auto simp: thenE_def split: prod.splits sum.splits)










lemma visited_append: "visited cur (cs @ ds) = visited cur cs @ visited (foldl step cur cs) ds"
  by (induction cs arbitrary: cur) auto



lemma is_dir_mono: "dirs s \<subseteq> dirs s' \<Longrightarrow> cwd s' = cwd s \<Longrightarrow> is_dir s q \<Longrightarrow> is_dir s' q"
  by (auto simp: is_dir_def)

subsection \<open>Creating directories\<close>


lemma mkdir_walk_errors:
  "fst (mkdir_walk made cur cs s) = Inr ()
   \<or> fst (mkdir_walk made cur cs s) = Inl FileExistsError
   \<or> fst (mkdir_walk made cur cs s) = Inl NotADirectoryError"
proof (induction cs arbitrary: made cur s)
  case Nil
  show ?case by simp
next
  case (Cons c cs)
  let ?q = "step cur c"
  let ?s1 = "s\<lparr>dirs := insert ?q (dirs s)\<rparr>"
  consider (a) "files s ?q \<noteq> None" | (b) "files s ?q = None" "is_dir s ?q"
    | (c) "files s ?q = None" "\<not> is_dir s ?q" by blast
  then show ?case
  proof cases
    case a
    then show ?thesis by simp
  next
    case b
    then have eq: "mkdir_walk made cur (c # cs) s = mkdir_walk made ?q cs s" by simp
    show ?thesis unfolding eq by (rule Cons.IH)
  next
    case c
    then have eq: "mkdir_walk made cur (c # cs) s = mkdir_walk True ?q cs ?s1" by simp
    show ?thesis unfolding eq by (rule Cons.IH)
  qed
qed





lemma is_dir_start: "is_dir s (start s p)"
  by (simp add: is_dir_def start_def)


lemma mkdir_p_not_config: "fst (mkdir_p p s) \<noteq> Inl (ValueError no_input_message)"
  using mkdir_walk_errors [of False "start s p" "components p" s]
  by (auto simp: mkdir_p_def no_input_message_def)





lemma GeoData_new_Inr:
  assumes ok: "GeoData_new shp rp vp out s = (Inr g, s')"
  shows "\<exists>s1 s2. mkdir_p out s = (Inr (), s1)
      \<and> (if truthy rp then mkdir_p (path_join out ''output_raster'') s1 = (Inr (), s2)
          else s2 = s1)
      \<and> (if truthy vp then mkdir_p (path_join out ''output_vector'') s2 = (Inr (), s')
          else s' = s2)"
    and "g = \<lparr>shapefile_path = shp, raster_path = rp, vector_path = vp, output_path = out,
              output_raster_path =
                (if truthy rp then Some (path_join out ''output_raster'') else None),
              output_vector_path =
                (if truthy vp then Some (path_join out ''output_vector'') else None)\<rparr>"
    and "truthy rp \<or> truthy vp"
proof -
  have "(\<exists>s1 s2. mkdir_p out s = (Inr (), s1)
      \<and> (if truthy rp then mkdir_p (path_join out ''output_raster'') s1 = (Inr (), s2)
          else s2 = s1)
      \<and> (if truthy vp then mkdir_p (path_join out ''output_vector'') s2 = (Inr (), s')
          else s' = s2))
    \<and> g = \<lparr>shapefile_path = shp, raster_path = rp, vector_path = vp, output_path = out,
              output_raster_path =
                (if truthy rp then Some (path_join out ''output_raster'') else None),
              output_vector_path =
                (if truthy vp then Some (path_join out ''output_vector'') else None)\<rparr>
    \<and> (truthy rp \<or> truthy vp)"
  proof (cases "truthy rp")
    case r: True
    show ?thesis
    proof (cases "truthy vp")
      case True
      with r ok show ?thesis
        by (simp add: GeoData_new_def GeoData_post_init_def thenE_Inr returnE_def) blast
    next
      case False
      with r ok show ?thesis
        by (simp add: GeoData_new_def GeoData_post_init_def thenE_Inr returnE_def) blast
    qed
  next
    case r: False
    show ?thesis
    proof (cases "truthy vp")
      case True
      with r ok show ?thesis
        by (simp add: GeoData_new_def GeoData_post_init_def thenE_Inr returnE_def) blast
    next
      case False
      with r ok show ?thesis
        by (simp add: GeoData_new_def GeoData_post_init_def raiseE_def)
    qed
  qed
  then show "\<exists>s1 s2. mkdir_p out s = (Inr (), s1)
      \<and> (if truthy rp then mkdir_p (path_join out ''output_raster'') s1 = (Inr (), s2)
          else s2 = s1)
      \<and> (if truthy vp then mkdir_p (path_join out ''output_vector'') s2 = (Inr (), s')
          else s' = s2)"
    and "g = \<lparr>shapefile_path = shp, raster_path = rp, vector_path = vp, output_path = out,
              output_raster_path =
                (if truthy rp then Some (path_join out ''output_raster'') else None),
              output_vector_path =
                (if truthy vp then Some (path_join out ''output_vector'') else None)\<rparr>"
    and "truthy rp \<or> truthy vp" by blast+
qed

subsection \<open>A successful construction\<close>






lemma thenE_not_config:
  assumes "fst (m s) \<noteq> Inl (ValueError no_input_message)"
    and "\<And>a s1. fst (f a s1) \<noteq> Inl (ValueError no_input_message)"
  shows "fst (thenE m f s) \<noteq> Inl (ValueError no_input_message)"
  using assms by (auto simp: thenE_def split: prod.splits sum.splits)

lemma GeoData_new_config_iff:
  "fst (GeoData_new shp rp vp out s) = Inl (ValueError no_input_message)
     \<longleftrightarrow> \<not> truthy rp \<and> \<not> truthy vp"
proof (cases "\<not> truthy rp \<and> \<not> truthy vp")
  case True
  then show ?thesis by (simp add: GeoData_new_def GeoData_post_init_def raiseE_def)
next
  case False
  have t: "fst (thenE (mkdir_p p) (\<lambda>_. returnE a) s1) \<noteq> Inl (ValueError no_input_message)"
    for p and a :: GeoData and s1
    by (rule thenE_not_config) (simp_all add: mkdir_p_not_config returnE_def)
  have i: "fst ((if b then thenE (mkdir_p p) (\<lambda>_. returnE a) else returnE a') s1)
      \<noteq> Inl (ValueError no_input_message)" for b p and a a' :: GeoData and s1
    using t [of p a s1] by (simp add: returnE_def)
  have "fst (GeoData_post_init self s) \<noteq> Inl (ValueError no_input_message)"
    if "truthy (raster_path self) \<or> truthy (vector_path self)" for self
  proof -
    have e: "GeoData_post_init self =
      thenE (mkdir_p (output_path self)) (\<lambda>_.
        thenE (if truthy (raster_path self) then
                 thenE (mkdir_p (path_join (output_path self) ''output_raster'')) (\<lambda>_.
                 returnE (self\<lparr>output_raster_path :=
                                  Some (path_join (output_path self) ''output_raster'')\<rparr>))
               else returnE self) (\<lambda>self1.
        if truthy (vector_path self1) then
          thenE (mkdir_p (path_join (output_path self1) ''output_vector'')) (\<lambda>_.
          returnE (self1\<lparr>output_vector_path :=
                            Some (path_join (output_path self1) ''output_vector'')\<rparr>))
        else returnE self1))"
      using that unfolding GeoData_post_init_def by auto
    show ?thesis
      unfolding e
      by (rule thenE_not_config, rule mkdir_p_not_config, rule thenE_not_config, rule i, rule i)
  qed
  then have "fst (GeoData_new shp rp vp out s) \<noteq> Inl (ValueError no_input_message)"
    using False by (simp add: GeoData_new_def)
  then show ?thesis using False by simp
qed

text \<open>Without \<open>..\<close> the subdirectories are not on the way to anything else.\<close>

lemma sub_names:
  "CHR ''/'' \<notin> set ''output_raster''" "''output_raster'' \<noteq> []" "''output_raster'' \<noteq> ''.''"
  "CHR ''/'' \<notin> set ''output_vector''" "''output_vector'' \<noteq> []" "''output_vector'' \<noteq> ''.''"
  by simp_all




subsection \<open>Example constructions\<close>

lemma example_components:
  "components ''out'' = [''out'']"
  "components ''out/output_raster'' = [''out'', ''output_raster'']"
  "components ''o/output_vector/..'' = [''o'', ''output_vector'', ''..'']"
  "components ''o/output_vector/../output_raster'' = [''o'', ''output_vector'', ''..'', ''output_raster'']"
  "components ''o/output_vector/../output_vector'' = [''o'', ''output_vector'', ''..'', ''output_vector'']"
  "components ''out/output_raster/raster_cropped.tif'' = [''out'', ''output_raster'', ''raster_cropped.tif'']"
  "components ''tiles/raster_merged.tif'' = [''tiles'', ''raster_merged.tif'']"
  "components ''out/x.tif'' = [''out'', ''x.tif'']"
  by (simp_all add: components_def)

lemma GeoData_new_job_r:
  "GeoData_new ''b.shp'' (Some ''r.tif'') None ''out'' world0 = (Inr job_r, world1)"
  by (simp add: GeoData_new_def GeoData_post_init_def thenE_def returnE_def mkdir_p_def
      truthy_def path_join_def example_components start_def is_abs_def step_def is_dir_def
      world0_def world1_def job_r_def insert_commute)



lemma GeoData_new_nul_path:
  "GeoData_new ''b.shp'' (Some ''r.tif'') None [CHR ''o'', CHR 0x00] world0
     = (Inl (ValueError ''embedded null byte''), world0)"
  by (simp add: GeoData_new_def GeoData_post_init_def thenE_def mkdir_p_def truthy_def)

section \<open>GeoData construction\<close>

text \<open>
  Claim C3. Constructing a \<open>GeoData\<close> job raises the configuration error (the
  \<open>ValueError\<close> with the message of the check) exactly when neither \<open>raster_path\<close> nor
  \<open>vector_path\<close> is supplied, where supplied is what the code tests: the field is truthy
  (neither \<open>None\<close> nor the empty string). When it raises the configuration error the
  world is unchanged, so no output directory has been created. When construction
  succeeds, at least one of the two fields of the job is set. (The \<open>ValueError\<close> that
  \<open>mkdir\<close> raises for a NUL character in \<open>output_path\<close> is another error, with another
  message; it is not the configuration error.)
\<close>

theorem GeoData_new_configuration_error:
  "(fst (GeoData_new shp rp vp out s) = Inl (ValueError no_input_message)
      \<longleftrightarrow> \<not> truthy rp \<and> \<not> truthy vp)
   \<and> (fst (GeoData_new shp rp vp out s) = Inl (ValueError no_input_message)
        \<longrightarrow> snd (GeoData_new shp rp vp out s) = s)
   \<and> (\<forall>g s'. GeoData_new shp rp vp out s = (Inr g, s')
        \<longrightarrow> truthy (raster_path g) \<or> truthy (vector_path g))"
proof (intro conjI allI impI)
  show "fst (GeoData_new shp rp vp out s) = Inl (ValueError no_input_message)
      \<longleftrightarrow> \<not> truthy rp \<and> \<not> truthy vp"
    by (rule GeoData_new_config_iff)
  show "snd (GeoData_new shp rp vp out s) = s"
    if "fst (GeoData_new shp rp vp out s) = Inl (ValueError no_input_message)"
  proof -
    from that have "\<not> truthy rp \<and> \<not> truthy vp" by (simp add: GeoData_new_config_iff)
    then show ?thesis by (simp add: GeoData_new_def GeoData_post_init_def raiseE_def)
  qed
  show "truthy (raster_path g) \<or> truthy (vector_path g)"
    if "GeoData_new shp rp vp out s = (Inr g, s')" for g s'
    using GeoData_new_Inr(2,3) [OF that] by auto
qed

theorem GeoData_new_configuration_error_witness:
  "fst (GeoData_new ''b.shp'' None None ''out'' world0) = Inl (ValueError no_input_message)
   \<and> snd (GeoData_new ''b.shp'' None None ''out'' world0) = world0
   \<and> GeoData_new ''b.shp'' (Some ''r.tif'') None ''out'' world0 = (Inr job_r, world1)
   \<and> truthy (raster_path job_r)
   \<and> fst (GeoData_new ''b.shp'' (Some ''r.tif'') None [CHR ''o'', CHR 0x00] world0)
       = Inl (ValueError ''embedded null byte'')
   \<and> fst (GeoData_new ''b.shp'' (Some ''r.tif'') None [CHR ''o'', CHR 0x00] world0)
       \<noteq> Inl (ValueError no_input_message)"
proof -
  have ok: "GeoData_new ''b.shp'' (Some ''r.tif'') None ''out'' world0 = (Inr job_r, world1)"
    by (rule GeoData_new_job_r)
  have nul: "fst (GeoData_new ''b.shp'' (Some ''r.tif'') None [CHR ''o'', CHR 0x00] world0)
       = Inl (ValueError ''embedded null byte'')"
    by (simp add: GeoData_new_nul_path)
  have t: "truthy (Some ''r.tif'')" by (simp add: truthy_def)
  have j: "truthy (raster_path job_r)" by (simp add: truthy_def job_r_def)
  have n: "\<not> truthy None" by (simp add: truthy_def)
  from GeoData_new_configuration_error [of "''b.shp''" None None "''out''" world0] n
  have a: "fst (GeoData_new ''b.shp'' None None ''out'' world0) = Inl (ValueError no_input_message)
     \<and> snd (GeoData_new ''b.shp'' None None ''out'' world0) = world0"
    by blast
  from GeoData_new_configuration_error
         [of "''b.shp''" "Some ''r.tif''" None "[CHR ''o'', CHR 0x00]" world0] t
  have b: "fst (GeoData_new ''b.shp'' (Some ''r.tif'') None [CHR ''o'', CHR 0x00] world0)
       \<noteq> Inl (ValueError no_input_message)"
    by blast
  show ?thesis using a ok j nul b by blast
qed

text \<open>
  Claim C10. An empty-string path counts as an absent one: when \<open>raster_path\<close> and
  \<open>vector_path\<close> are each \<open>None\<close> or the empty string, construction raises the
  configuration \<open>ValueError\<close> (and leaves the world as it was), because the check is on
  truthiness.
\<close>

theorem GeoData_new_empty_string_is_absent:
  assumes "rp = None \<or> rp = Some []" and "vp = None \<or> vp = Some []"
  shows "GeoData_new shp rp vp out s = (Inl (ValueError no_input_message), s)"
  using assms
  by (auto simp: GeoData_new_def GeoData_post_init_def raiseE_def truthy_def)

theorem GeoData_new_empty_string_is_absent_witness:
  "GeoData_new ''b.shp'' (Some []) None ''out'' world0
     = (Inl (ValueError no_input_message), world0)
   \<and> GeoData_new ''b.shp'' (Some []) (Some []) ''out'' world0
     = (Inl (ValueError no_input_message), world0)"
  using GeoData_new_empty_string_is_absent [of "Some []" None "''b.shp''" "''out''" world0]
    GeoData_new_empty_string_is_absent [of "Some []" "Some []" "''b.shp''" "''out''" world0]
  by simp




section \<open>VectorCropper\<close>

text \<open>
  Claim C4. The \<open>GeoData\<close> data model has no attribute \<open>get_crs\<close>, which
  \<open>VectorCropper.transform_crs\<close> reads. So for every job and every loaded shapefile,
  \<open>VectorCropper.execute()\<close> raises \<open>AttributeError\<close> in \<open>transform_crs\<close>, and it leaves
  the world exactly as it was: no vector file is written.
\<close>

theorem VectorCropper_execute_attribute_error:
  "GeoData_getattr (vc_geo_data self) ''get_crs'' = Inl AttributeError
   \<and> VectorCropper_transform_crs lib self = Inl AttributeError
   \<and> VectorCropper_execute lib self s = (Inl AttributeError, s)"
  by (simp add: VectorCropper_execute_def VectorCropper_crop_def
      VectorCropper_transform_crs_def GeoData_getattr_def thenE_def liftE_def bindS_def)
section \<open>Facts about the library calls\<close>

lemma liftE_thenE: "thenE (liftE r) f s = (case r of Inl e \<Rightarrow> (Inl e, s) | Inr a \<Rightarrow> f a s)"
  by (simp add: thenE_def liftE_def split: sum.splits)

lemma returnE_thenE: "thenE (returnE a) f s = f a s"
  by (simp add: thenE_def returnE_def)

lemma close_handle_last: "close_handle h (hs @ [h]) = hs"
  by (simp add: close_handle_def)

lemma resolve_update [simp]:
  "resolve (s\<lparr>handles := h\<rparr>) p = resolve s p"
  "resolve (s\<lparr>files := f\<rparr>) p = resolve s p"
  "resolve (s\<lparr>dirs := d\<rparr>) p = resolve s p"
  by (simp_all add: resolve_def start_def)

lemma example_resolve:
  "cwd s = [''work''] \<Longrightarrow> resolve s ''out/output_raster/raster_cropped.tif''
     = [''work'', ''out'', ''output_raster'', ''raster_cropped.tif'']"
  "cwd s = [''work''] \<Longrightarrow> resolve s ''tiles/raster_merged.tif''
     = [''work'', ''tiles'', ''raster_merged.tif'']"
  "cwd s = [''work''] \<Longrightarrow> resolve s ''out/x.tif'' = [''work'', ''out'', ''x.tif'']"
  by (simp_all add: resolve_def start_def is_abs_def step_def example_components)

lemma write_raster_ok:
  assumes "create_err lib path m = None" and "write_err lib path arr = None"
  shows "write_raster lib path m arr s =
     (Inr (), s\<lparr>files := (files s)(resolve s path \<mapsto> RasterFile m (Some arr))\<rparr>)"
  using assms by (simp add: write_raster_def Let_def close_handle_last)

lemma write_raster_handles: "handles (snd (write_raster lib path m arr s)) = handles s"
  by (simp add: write_raster_def Let_def close_handle_last split: option.splits)

lemma vector_to_file_handles: "handles (snd (vector_to_file lib l path s)) = handles s"
  by (simp add: vector_to_file_def split: option.splits)

lemma update_meta_3d:
  assumes "shape arr = [b, h, w]"
  shows "update_meta m arr tr =
     Inr (m(''driver'' \<mapsto> PStr ''GTiff'', ''height'' \<mapsto> PInt (int h),
            ''width'' \<mapsto> PInt (int w), ''transform'' \<mapsto> PAffine tr))"
  using assms by (simp add: update_meta_def shape_at_def bindS_def)

subsection \<open>Opening the inputs of a merge\<close>

lemma open_all_ok:
  "map (rasterio_open lib) ps = map Inr ds \<Longrightarrow>
   open_all lib ps s = (Inr ds, s\<lparr>handles := handles s @ map (\<lambda>p. (p, ModeR)) ps\<rparr>)"
proof (induction ps arbitrary: ds s)
  case Nil
  then show ?case by (simp add: returnE_def)
next
  case (Cons p ps)
  then obtain d ds' where ds: "ds = d # ds'" and d: "rasterio_open lib p = Inr d"
    and rest: "map (rasterio_open lib) ps = map Inr ds'"
    by (cases ds) auto
  show ?case
    using Cons.IH [OF rest] d
    by (simp add: ds thenE_def returnE_def rasterio_open_r_def)
qed

lemma open_all_fail:
  "map (rasterio_open lib) pre = map Inr ds \<Longrightarrow> rasterio_open lib p = Inl e \<Longrightarrow>
   open_all lib (pre @ p # post) s =
     (Inl e, s\<lparr>handles := handles s @ map (\<lambda>q. (q, ModeR)) pre\<rparr>)"
proof (induction pre arbitrary: ds s)
  case Nil
  then show ?case by (simp add: thenE_def rasterio_open_r_def)
next
  case (Cons q pre)
  then obtain d ds' where ds: "ds = d # ds'" and d: "rasterio_open lib q = Inr d"
    and rest: "map (rasterio_open lib) pre = map Inr ds'"
    by (cases ds) auto
  show ?case
    using Cons.IH [OF rest Cons.prems(2)] d
    by (simp add: thenE_def rasterio_open_r_def)
qed

lemma open_all_handles:
  "\<exists>k\<le>length ps.
      handles (snd (open_all lib ps s)) = handles s @ map (\<lambda>p. (p, ModeR)) (take k ps)
      \<and> files (snd (open_all lib ps s)) = files s
      \<and> (\<forall>ds. fst (open_all lib ps s) = Inr ds \<longrightarrow> k = length ps)"
proof (induction ps arbitrary: s)
  case Nil
  show ?case by (simp add: returnE_def)
next
  case (Cons p ps)
  show ?case
  proof (cases "rasterio_open lib p")
    case (Inl e)
    then have "open_all lib (p # ps) s = (Inl e, s)"
      by (simp add: thenE_def rasterio_open_r_def)
    then show ?thesis by (intro exI [of _ 0]) simp
  next
    case (Inr d)
    let ?s1 = "s\<lparr>handles := handles s @ [(p, ModeR)]\<rparr>"
    from Cons.IH [of ?s1] obtain k where k: "k \<le> length ps"
      "handles (snd (open_all lib ps ?s1)) = handles ?s1 @ map (\<lambda>p. (p, ModeR)) (take k ps)"
      "files (snd (open_all lib ps ?s1)) = files ?s1"
      "\<forall>ds. fst (open_all lib ps ?s1) = Inr ds \<longrightarrow> k = length ps"
      by blast
    have eq: "open_all lib (p # ps) s =
       (case open_all lib ps ?s1 of
          (Inl e, s') \<Rightarrow> (Inl e, s') | (Inr ds, s') \<Rightarrow> (Inr (d # ds), s'))"
      using Inr
      by (auto simp: thenE_def rasterio_open_r_def returnE_def split: prod.splits sum.splits)
    show ?thesis
      using k unfolding eq
      by (intro exI [of _ "Suc k"]) (auto split: prod.splits sum.splits)
  qed
qed

subsection \<open>merge\_raster\<close>

lemma merge_raster_ok:
  assumes opens: "map (rasterio_open lib) (p0 # rest) = map Inr (d0 # ds)"
    and merged: "merge lib (d0 # ds) = Inr (arr, tr)"
    and shp: "shape arr = [b, h, w]"
    and target: "target =
      (case out_path of None \<Rightarrow> path_join (dirname p0) ''raster_merged.tif'' | Some p \<Rightarrow> p)"
    and m': "m' = (ds_meta d0)(''driver'' \<mapsto> PStr ''GTiff'', ''height'' \<mapsto> PInt (int h),
            ''width'' \<mapsto> PInt (int w), ''transform'' \<mapsto> PAffine tr)"
    and cr: "create_err lib target m' = None" and wr: "write_err lib target arr = None"
  shows "merge_raster lib (p0 # rest) out_path s =
     (Inr (), s\<lparr>handles := handles s @ map (\<lambda>p. (p, ModeR)) (p0 # rest),
                 files := (files s)(resolve s target \<mapsto> RasterFile m' (Some arr))\<rparr>)"
proof -
  have o: "open_all lib (p0 # rest) s =
      (Inr (d0 # ds), s\<lparr>handles := handles s @ map (\<lambda>p. (p, ModeR)) (p0 # rest)\<rparr>)"
    by (rule open_all_ok [OF opens])
  have w: "write_raster lib target m' arr s1 =
      (Inr (), s1\<lparr>files := (files s1)(resolve s1 target \<mapsto> RasterFile m' (Some arr))\<rparr>)" for s1
    by (rule write_raster_ok [OF cr wr])
  show ?thesis
  proof (cases out_path)
    case None
    then have tg: "path_join (dirname p0) ''raster_merged.tif'' = target"
      by (simp add: target)
    show ?thesis
      unfolding merge_raster_def using None
      by (simp del: open_all.simps add: thenE_def o liftE_def rasterio_merge_def merged
          index0_def bindS_def update_meta_3d [OF shp] m' [symmetric] tg w)
  next
    case (Some a)
    then have tg: "out_path = Some target" by (simp add: target)
    show ?thesis
      unfolding merge_raster_def
      by (simp del: open_all.simps add: thenE_def o liftE_def rasterio_merge_def merged
          index0_def returnE_def update_meta_3d [OF shp] m' [symmetric] tg w)
  qed
qed

lemma merge_raster_empty: "merge_raster lib [] out_path s = (Inl IndexError, s)"
  by (simp add: merge_raster_def thenE_def returnE_def liftE_def rasterio_merge_def)

lemma merge_raster_open_error:
  assumes "map (rasterio_open lib) pre = map Inr ds" and "rasterio_open lib p = Inl e"
  shows "merge_raster lib (pre @ p # post) out_path s =
     (Inl e, s\<lparr>handles := handles s @ map (\<lambda>q. (q, ModeR)) pre\<rparr>)"
  unfolding merge_raster_def
  by (simp add: thenE_def open_all_fail [OF assms])

lemma merge_raster_handles:
  "\<exists>k\<le>length ps.
      handles (snd (merge_raster lib ps out_path s))
        = handles s @ map (\<lambda>p. (p, ModeR)) (take k ps)
      \<and> (\<forall>u. fst (merge_raster lib ps out_path s) = Inr u \<longrightarrow> k = length ps)"
proof -
  obtain k where k: "k \<le> length ps"
    "handles (snd (open_all lib ps s)) = handles s @ map (\<lambda>p. (p, ModeR)) (take k ps)"
    "\<forall>ds. fst (open_all lib ps s) = Inr ds \<longrightarrow> k = length ps"
    using open_all_handles [of ps lib s] by blast
  obtain r s1 where o: "open_all lib ps s = (r, s1)" by (cases "open_all lib ps s")
  have h: "handles (snd (merge_raster lib ps out_path s)) = handles s1"
    unfolding merge_raster_def
    by (cases out_path)
       (simp_all add: thenE_def [of "open_all lib ps"] o liftE_thenE returnE_thenE
          write_raster_handles split: sum.splits prod.splits)
  have ok: "fst (merge_raster lib ps out_path s) = Inr u \<Longrightarrow> \<exists>ds. r = Inr ds" for u
    unfolding merge_raster_def
    by (cases r) (simp_all add: thenE_def [of "open_all lib ps"] o)
  show ?thesis
    using k h ok o by (intro exI [of _ k]) auto
qed

subsection \<open>The croppers\<close>

lemma RasterCropper_execute_handles:
  "handles (snd (RasterCropper_execute lib c s)) = handles s"
  by (simp add: RasterCropper_execute_def liftE_thenE write_raster_handles
      split: sum.splits prod.splits)

lemma VectorCropper_execute_handles:
  "handles (snd (VectorCropper_execute lib c s)) = handles s"
  by (simp add: VectorCropper_execute_def liftE_thenE vector_to_file_handles
      split: sum.splits prod.splits)

lemma BothCropper_execute_handles:
  "handles (snd (BothCropper_execute lib c s)) = handles s"
proof -
  have a: "handles (snd (thenE (write_raster lib path m arr) f s)) = handles s"
    if "\<And>x s1. handles (snd (f x s1)) = handles s1" for path m arr f
    using that write_raster_handles [of lib path m arr s]
    by (auto simp: thenE_def split: prod.splits sum.splits)
  show ?thesis
    by (simp add: BothCropper_execute_def liftE_thenE a vector_to_file_handles
        split: sum.splits prod.splits)
qed

lemma Cropper_execute_handles: "handles (snd (Cropper_execute lib c s)) = handles s"
  by (cases c) (simp_all add: RasterCropper_execute_handles VectorCropper_execute_handles
      BothCropper_execute_handles)

lemma BothCropper_crop_fails: "\<exists>e. BothCropper_crop lib c = Inl e"
  by (cases "vector_path (bc_geo_data c)")
     (auto simp: BothCropper_crop_def bindS_def gpd_overlay_def opt_str_def
        split: sum.splits prod.splits)

lemma RasterCropper_run_ok:
  assumes job: "GeoData_new shp (Some rp) vp out s0 = (Inr gd, s)" and ne: "rp \<noteq> []"
    and op: "rasterio_open lib rp = Inr ds"
    and rd: "read_file lib shp = Inr shapefile"
    and tc: "to_crs lib shapefile (PCrs (ds_crs ds)) = Inr reprojected"
    and mk: "mask lib ds (lgeometry reprojected) True = Inr (arr, tr)"
    and sh: "shape arr = [b, h, w]"
    and target: "target = path_join (path_join out ''output_raster'') ''raster_cropped.tif''"
    and m': "m' = (ds_meta ds)(''driver'' \<mapsto> PStr ''GTiff'', ''height'' \<mapsto> PInt (int h),
            ''width'' \<mapsto> PInt (int w), ''transform'' \<mapsto> PAffine tr)"
    and cr: "create_err lib target m' = None" and wr: "write_err lib target arr = None"
  shows "RasterCropper_run lib gd s =
     (Inr (), s\<lparr>handles := handles s @ [(rp, ModeR)],
                 files := (files s)(resolve s target \<mapsto> RasterFile m' (Some arr))\<rparr>)"
proof -
  have t: "truthy (Some rp)" using ne by (simp add: truthy_def)
  have gd: "raster_path gd = Some rp" "shapefile_path gd = shp"
    "output_raster_path gd = Some (path_join out ''output_raster'')"
    using GeoData_new_Inr(2) [OF job] t by simp_all
  have new: "RasterCropper_new lib gd s =
      (Inr \<lparr>rc_geo_data = gd, rc_raster = ds\<rparr>, s\<lparr>handles := handles s @ [(rp, ModeR)]\<rparr>)"
    by (simp add: RasterCropper_new_def gd thenE_def rasterio_open_r_def op returnE_def)
  have crop: "RasterCropper_crop lib \<lparr>rc_geo_data = gd, rc_raster = ds\<rparr> = Inr (arr, tr)"
    by (simp add: RasterCropper_crop_def RasterCropper_transform_crs_def bindS_def gd rd tc mk)
  have ex: "RasterCropper_execute lib \<lparr>rc_geo_data = gd, rc_raster = ds\<rparr> s1 =
      (Inr (), s1\<lparr>files := (files s1)(resolve s1 target \<mapsto> RasterFile m' (Some arr))\<rparr>)" for s1
    by (simp add: RasterCropper_execute_def liftE_thenE crop update_meta_3d [OF sh]
        m' [symmetric] attr_def gd target [symmetric] write_raster_ok [OF cr wr])
  show ?thesis
    by (simp add: RasterCropper_run_def thenE_def new ex)
qed

subsection \<open>The example library and the example runs\<close>

lemma lib0_simps:
  "rasterio_open lib0 ''r.tif'' = Inr (ds0 ''r.tif'')"
  "rasterio_open lib0 ''tiles/a.tif'' = Inr (ds0 ''tiles/a.tif'')"
  "rasterio_open lib0 ''tiles/b.tif'' = Inr (ds0 ''tiles/b.tif'')"
  "rasterio_open lib0 ''missing.tif'' = Inl (LibraryError 1)"
  "read_file lib0 ''b.shp'' = Inr shp_b"
  "to_crs lib0 l (PCrs c) = Inr (l\<lparr>lcrs := c\<rparr>)"
  "mask lib0 d g True = Inr (arr_crop, Affine 5)"
  "merge lib0 dss = Inr (arr_merged, Affine 6)"
  "overlay_bad_arg lib0 = TypeError"
  "create_err lib0 p m = None"
  "write_err lib0 p a = None"
  "to_file_err lib0 l p = None"
  by (simp_all add: lib0_def)

lemma example_shapes:
  "shape arr_crop = [1, 40, 50]"
  "shape arr_merged = [1, 100, 400]"
  by (simp_all add: arr_crop_def arr_merged_def)

lemma example_paths:
  "''out/output_raster/raster_cropped.tif''
     = path_join (path_join ''out'' ''output_raster'') ''raster_cropped.tif''"
  "''tiles/raster_merged.tif''
     = (case None :: string option of
          None \<Rightarrow> path_join (dirname ''tiles/a.tif'') ''raster_merged.tif'' | Some p \<Rightarrow> p)"
  by (simp_all add: path_join_def dirname_def)

lemma example_metas:
  "meta_crop = (ds_meta (ds0 ''r.tif''))(''driver'' \<mapsto> PStr ''GTiff'',
      ''height'' \<mapsto> PInt (int 40), ''width'' \<mapsto> PInt (int 50),
      ''transform'' \<mapsto> PAffine (Affine 5))"
  "meta_merged = (ds_meta (ds0 ''tiles/a.tif''))(''driver'' \<mapsto> PStr ''GTiff'',
      ''height'' \<mapsto> PInt (int 100), ''width'' \<mapsto> PInt (int 400),
      ''transform'' \<mapsto> PAffine (Affine 6))"
  by (simp_all add: meta_crop_def meta_merged_def ds0_def)

lemma RasterCropper_run_job_r:
  "RasterCropper_run lib0 job_r world1 =
     (Inr (), world1\<lparr>handles := [(''r.tif'', ModeR)],
                      files := [[''work'', ''out'', ''output_raster'', ''raster_cropped.tif'']
                                  \<mapsto> RasterFile meta_crop (Some arr_crop)]\<rparr>)"
  using RasterCropper_run_ok [OF GeoData_new_job_r _ lib0_simps(1) lib0_simps(5) lib0_simps(6)
      lib0_simps(7) example_shapes(1) example_paths(1) example_metas(1) lib0_simps(10)
      lib0_simps(11)]
  by (simp add: world1_def example_resolve)

lemma RasterCropper_execute_job_r:
  "RasterCropper_execute lib0 \<lparr>rc_geo_data = job_r, rc_raster = ds0 ''r.tif''\<rparr> world1 =
    (Inr (), world1\<lparr>files := [[''work'', ''out'', ''output_raster'', ''raster_cropped.tif'']
                                 \<mapsto> RasterFile meta_crop (Some arr_crop)]\<rparr>)"
  by (simp add: RasterCropper_execute_def RasterCropper_crop_def RasterCropper_transform_crs_def
      liftE_thenE bindS_def job_r_def lib0_simps ds0_def update_meta_def shape_at_def arr_crop_def
      attr_def path_join_def write_raster_def close_handle_def world1_def meta_crop_def
      example_resolve)

section \<open>RasterCropper\<close>

text \<open>
  Claim C1. For a job constructed with a non-empty \<open>raster_path\<close> (construction succeeded
  and left the world \<open>s\<close>), \<open>RasterCropper(job).execute()\<close> does this, provided the
  library calls return: it opens the raster (the read handle is open from then on and
  still open at the end); it reads the shapefile and reprojects it to the raster's CRS;
  it masks the raster with the reprojected geometry and \<open>crop=True\<close>; it writes the
  cropped array to \<open><output_path>/output_raster/raster_cropped.tif\<close> with the raster's
  metadata changed in the keys \<open>driver\<close> (to \<open>GTiff\<close>), \<open>height\<close>, \<open>width\<close> and
  \<open>transform\<close> and in no other key. Nothing else in the world changes.
\<close>

theorem RasterCropper_execute_steps:
  assumes "GeoData_new shp (Some rp) vp out s0 = (Inr gd, s)" and "rp \<noteq> []"
    and "rasterio_open lib rp = Inr ds"
    and "read_file lib shp = Inr shapefile"
    and "to_crs lib shapefile (PCrs (ds_crs ds)) = Inr reprojected"
    and "mask lib ds (lgeometry reprojected) True = Inr (arr, tr)"
    and "shape arr = [b, h, w]"
    and "target = path_join (path_join out ''output_raster'') ''raster_cropped.tif''"
    and "m' = (ds_meta ds)(''driver'' \<mapsto> PStr ''GTiff'', ''height'' \<mapsto> PInt (int h),
            ''width'' \<mapsto> PInt (int w), ''transform'' \<mapsto> PAffine tr)"
    and "create_err lib target m' = None" and "write_err lib target arr = None"
  shows "RasterCropper_run lib gd s =
     (Inr (), s\<lparr>handles := handles s @ [(rp, ModeR)],
                 files := (files s)(resolve s target \<mapsto> RasterFile m' (Some arr))\<rparr>)
   \<and> (\<forall>k. k \<notin> {''driver'', ''height'', ''width'', ''transform''} \<longrightarrow> m' k = ds_meta ds k)"
proof
  show "RasterCropper_run lib gd s =
     (Inr (), s\<lparr>handles := handles s @ [(rp, ModeR)],
                 files := (files s)(resolve s target \<mapsto> RasterFile m' (Some arr))\<rparr>)"
    by (rule RasterCropper_run_ok [OF assms])
  show "\<forall>k. k \<notin> {''driver'', ''height'', ''width'', ''transform''} \<longrightarrow> m' k = ds_meta ds k"
    using assms(9) by simp
qed

theorem RasterCropper_execute_steps_witness:
  "RasterCropper_run lib0 job_r world1 =
     (Inr (), world1\<lparr>handles := [(''r.tif'', ModeR)],
                      files := [[''work'', ''out'', ''output_raster'', ''raster_cropped.tif'']
                                  \<mapsto> RasterFile meta_crop (Some arr_crop)]\<rparr>)
   \<and> meta_crop ''count'' = meta0 ''count''
   \<and> meta_crop ''driver'' = Some (PStr ''GTiff'')"
proof -
  have ne: "''r.tif'' \<noteq> []" by simp
  note c = RasterCropper_execute_steps [OF GeoData_new_job_r ne lib0_simps(1) lib0_simps(5)
      lib0_simps(6) lib0_simps(7) example_shapes(1) example_paths(1) example_metas(1)
      lib0_simps(10) lib0_simps(11)]
  from c have run: "RasterCropper_run lib0 job_r world1 =
     (Inr (), world1\<lparr>handles := [(''r.tif'', ModeR)],
                      files := [[''work'', ''out'', ''output_raster'', ''raster_cropped.tif'']
                                  \<mapsto> RasterFile meta_crop (Some arr_crop)]\<rparr>)"
    by (simp add: world1_def example_resolve)
  from c have "meta_crop ''count'' = ds_meta (ds0 ''r.tif'') ''count''" by simp
  then have cnt: "meta_crop ''count'' = meta0 ''count''" by (simp add: ds0_def)
  have drv: "meta_crop ''driver'' = Some (PStr ''GTiff'')" by (simp add: meta_crop_def)
  show ?thesis using run cnt drv by simp
qed

section \<open>merge\_raster: results\<close>

text \<open>
  Claim C2. For a non-empty list of paths that can all be opened, \<open>merge_raster\<close>
  (the merge primitive and the write returning) writes exactly one file: the only change
  to the files is at the output path, which holds the merged array under the first
  input's metadata changed in the keys \<open>driver\<close> (\<open>GTiff\<close>), \<open>height\<close>, \<open>width\<close>
  (from the merged array's shape) and \<open>transform\<close> (from the merge primitive) and in no
  other key. With \<open>output_path\<close> \<open>None\<close> the output path is
  \<open><dirname of the first input>/raster_merged.tif\<close>.
\<close>

theorem merge_raster_writes_one_file:
  assumes "map (rasterio_open lib) (p0 # rest) = map Inr (d0 # ds)"
    and "merge lib (d0 # ds) = Inr (arr, tr)"
    and "shape arr = [b, h, w]"
    and "target =
      (case out_path of None \<Rightarrow> path_join (dirname p0) ''raster_merged.tif'' | Some p \<Rightarrow> p)"
    and "m' = (ds_meta d0)(''driver'' \<mapsto> PStr ''GTiff'', ''height'' \<mapsto> PInt (int h),
            ''width'' \<mapsto> PInt (int w), ''transform'' \<mapsto> PAffine tr)"
    and "create_err lib target m' = None" and "write_err lib target arr = None"
  shows "merge_raster lib (p0 # rest) out_path s =
     (Inr (), s\<lparr>handles := handles s @ map (\<lambda>p. (p, ModeR)) (p0 # rest),
                 files := (files s)(resolve s target \<mapsto> RasterFile m' (Some arr))\<rparr>)
   \<and> (\<forall>k. k \<notin> {''driver'', ''height'', ''width'', ''transform''} \<longrightarrow> m' k = ds_meta d0 k)
   \<and> (out_path = None \<longrightarrow> target = path_join (dirname p0) ''raster_merged.tif'')"
proof (intro conjI)
  show "merge_raster lib (p0 # rest) out_path s =
     (Inr (), s\<lparr>handles := handles s @ map (\<lambda>p. (p, ModeR)) (p0 # rest),
                 files := (files s)(resolve s target \<mapsto> RasterFile m' (Some arr))\<rparr>)"
    by (rule merge_raster_ok [OF assms])
  show "\<forall>k. k \<notin> {''driver'', ''height'', ''width'', ''transform''} \<longrightarrow> m' k = ds_meta d0 k"
    using assms(5) by simp
  show "out_path = None \<longrightarrow> target = path_join (dirname p0) ''raster_merged.tif''"
    using assms(4) by simp
qed

theorem merge_raster_writes_one_file_witness:
  "merge_raster lib0 [''tiles/a.tif'', ''tiles/b.tif''] None world0 =
     (Inr (), world0\<lparr>handles := [(''tiles/a.tif'', ModeR), (''tiles/b.tif'', ModeR)],
                      files := [[''work'', ''tiles'', ''raster_merged.tif'']
                                  \<mapsto> RasterFile meta_merged (Some arr_merged)]\<rparr>)
   \<and> meta_merged ''count'' = meta0 ''count''
   \<and> meta_merged ''height'' = Some (PInt 100)"
proof -
  have op: "map (rasterio_open lib0) [''tiles/a.tif'', ''tiles/b.tif'']
      = map Inr [ds0 ''tiles/a.tif'', ds0 ''tiles/b.tif'']"
    by (simp add: lib0_simps)
  note c = merge_raster_writes_one_file [OF op lib0_simps(8) example_shapes(2)
      example_paths(2) example_metas(2) lib0_simps(10) lib0_simps(11), of world0]
  from c have run: "merge_raster lib0 [''tiles/a.tif'', ''tiles/b.tif''] None world0 =
     (Inr (), world0\<lparr>handles := [(''tiles/a.tif'', ModeR), (''tiles/b.tif'', ModeR)],
                      files := [[''work'', ''tiles'', ''raster_merged.tif'']
                                  \<mapsto> RasterFile meta_merged (Some arr_merged)]\<rparr>)"
    by (simp add: world0_def example_resolve)
  from c have "meta_merged ''count'' = ds_meta (ds0 ''tiles/a.tif'') ''count''" by simp
  then have cnt: "meta_merged ''count'' = meta0 ''count''" by (simp add: ds0_def)
  have hgt: "meta_merged ''height'' = Some (PInt 100)" by (simp add: meta_merged_def)
  show ?thesis using run cnt hgt by simp
qed

text \<open>
  Claim C8. On the empty list \<open>merge_raster\<close> raises \<open>IndexError\<close>. When a path cannot
  be opened (all paths before it can), it raises that path's open error as the library
  gave it. In both cases no file is written: the files of the world are unchanged (the
  inputs opened before the failure stay open).
\<close>

theorem merge_raster_failures:
  "merge_raster lib [] out_path s = (Inl IndexError, s)
   \<and> (\<forall>pre p post ds e.
         map (rasterio_open lib) pre = map Inr ds \<and> rasterio_open lib p = Inl e \<longrightarrow>
         fst (merge_raster lib (pre @ p # post) out_path s) = Inl e
         \<and> files (snd (merge_raster lib (pre @ p # post) out_path s)) = files s
         \<and> dirs (snd (merge_raster lib (pre @ p # post) out_path s)) = dirs s)"
proof (intro conjI allI impI)
  show "merge_raster lib [] out_path s = (Inl IndexError, s)"
    by (rule merge_raster_empty)
next
  fix pre p post ds e
  assume a: "map (rasterio_open lib) pre = map Inr ds \<and> rasterio_open lib p = Inl e"
  then have eq: "merge_raster lib (pre @ p # post) out_path s =
     (Inl e, s\<lparr>handles := handles s @ map (\<lambda>q. (q, ModeR)) pre\<rparr>)"
    using merge_raster_open_error [of lib pre ds p e post out_path s] by simp
  show "fst (merge_raster lib (pre @ p # post) out_path s) = Inl e" by (simp add: eq)
  show "files (snd (merge_raster lib (pre @ p # post) out_path s)) = files s" by (simp add: eq)
  show "dirs (snd (merge_raster lib (pre @ p # post) out_path s)) = dirs s" by (simp add: eq)
qed

theorem merge_raster_failures_witness:
  "merge_raster lib0 [] None world0 = (Inl IndexError, world0)
   \<and> map (rasterio_open lib0) [''tiles/a.tif''] = map Inr [ds0 ''tiles/a.tif'']
   \<and> rasterio_open lib0 ''missing.tif'' = Inl (LibraryError 1)
   \<and> fst (merge_raster lib0 ([''tiles/a.tif''] @ ''missing.tif'' # [''tiles/b.tif'']) None world0)
       = Inl (LibraryError 1)
   \<and> files (snd (merge_raster lib0 ([''tiles/a.tif''] @ ''missing.tif'' # [''tiles/b.tif''])
                   None world0)) = files world0"
proof -
  have op: "map (rasterio_open lib0) [''tiles/a.tif''] = map Inr [ds0 ''tiles/a.tif'']"
    by (simp add: lib0_simps)
  have bad: "rasterio_open lib0 ''missing.tif'' = Inl (LibraryError 1)"
    by (rule lib0_simps(4))
  note c = merge_raster_failures [of lib0 None world0]
  from c have empty: "merge_raster lib0 [] None world0 = (Inl IndexError, world0)" by blast
  from c op bad
  have fail: "fst (merge_raster lib0 ([''tiles/a.tif''] @ ''missing.tif'' # [''tiles/b.tif''])
                 None world0) = Inl (LibraryError 1)
     \<and> files (snd (merge_raster lib0 ([''tiles/a.tif''] @ ''missing.tif'' # [''tiles/b.tif''])
                   None world0)) = files world0"
    by blast
  show ?thesis using empty op bad fail by blast
qed

section \<open>BothCropper\<close>

text \<open>
  Claim C6 says that \<open>BothCropper.execute()\<close> writes a cropped raster and a cropped
  vector file. The code reprojects once to the raster's CRS and hands the reprojected
  shapefile to both \<open>mask\<close> and \<open>gpd.overlay\<close>, but it passes the path
  \<open>self.geo_data.vector_path\<close> (a string or \<open>None\<close>) as the second argument of
  \<open>gpd.overlay\<close>, which takes GeoDataFrames only. So \<open>crop()\<close> always raises, before the
  first write: for every library, cropper and world, \<open>execute()\<close> ends in an error and
  leaves the world unchanged.
\<close>

theorem BothCropper_execute_never_writes:
  "gpd_overlay lib df (opt_str (vector_path (bc_geo_data self))) = Inl (overlay_bad_arg lib)
   \<and> (\<exists>e. BothCropper_execute lib self s = (Inl e, s))"
proof
  show "gpd_overlay lib df (opt_str (vector_path (bc_geo_data self)))
      = Inl (overlay_bad_arg lib)"
    by (cases "vector_path (bc_geo_data self)") (simp_all add: gpd_overlay_def opt_str_def)
  from BothCropper_crop_fails [of lib self]
  show "\<exists>e. BothCropper_execute lib self s = (Inl e, s)"
    by (auto simp: BothCropper_execute_def liftE_thenE)
qed

section \<open>Application\<close>

text \<open>
  Claim C5 says that the runner selects the cropper variant from the fields of the job.
  \<open>Application\<close> does not select: it holds a cropper given by its caller and calls that
  cropper's \<open>execute()\<close>. Given a raster-only job and a \<open>VectorCropper\<close>, it runs the
  \<open>VectorCropper\<close> (which raises \<open>AttributeError\<close>), although the \<open>RasterCropper\<close> for the
  same job would have written the cropped raster.
\<close>

theorem Application_does_not_select_counterexample:
  "raster_path job_r = Some ''r.tif'' \<and> vector_path job_r = None
   \<and> Application_execute lib0
        \<lparr>geo_data = job_r,
         cropper = IsVectorCropper \<lparr>vc_geo_data = job_r, vc_shapefile = shp_b\<rparr>\<rparr> world1
       = (Inl AttributeError, world1)
   \<and> RasterCropper_execute lib0 \<lparr>rc_geo_data = job_r, rc_raster = ds0 ''r.tif''\<rparr> world1
       \<noteq> (Inl AttributeError, world1)"
proof -
  have j: "raster_path job_r = Some ''r.tif'' \<and> vector_path job_r = None"
    by (simp add: job_r_def)
  have v: "Application_execute lib0
        \<lparr>geo_data = job_r,
         cropper = IsVectorCropper \<lparr>vc_geo_data = job_r, vc_shapefile = shp_b\<rparr>\<rparr> world1
       = (Inl AttributeError, world1)"
    by (simp add: Application_execute_def VectorCropper_execute_def VectorCropper_crop_def
        VectorCropper_transform_crs_def GeoData_getattr_def liftE_thenE bindS_def)
  have r: "RasterCropper_execute lib0 \<lparr>rc_geo_data = job_r, rc_raster = ds0 ''r.tif''\<rparr> world1
       \<noteq> (Inl AttributeError, world1)"
    by (simp add: RasterCropper_execute_job_r)
  show ?thesis using j v r by simp
qed

text \<open>
  Claim C5, amended. \<open>Application.execute()\<close> calls \<open>execute()\<close> of the cropper object it
  was constructed with, whichever of the three variants that is; its outcome does not
  depend on the job stored next to the cropper. The program contains no selection of the
  variant: choosing it is left to the caller.
\<close>

theorem Application_execute_runs_given_cropper:
  "Application_execute lib \<lparr>geo_data = g, cropper = IsRasterCropper rc\<rparr> s
     = RasterCropper_execute lib rc s
   \<and> Application_execute lib \<lparr>geo_data = g, cropper = IsVectorCropper vc\<rparr> s
     = VectorCropper_execute lib vc s
   \<and> Application_execute lib \<lparr>geo_data = g, cropper = IsBothCropper bc\<rparr> s
     = BothCropper_execute lib bc s
   \<and> Application_execute lib \<lparr>geo_data = g, cropper = c\<rparr> s
     = Application_execute lib \<lparr>geo_data = g', cropper = c\<rparr> s"
  by (simp add: Application_execute_def)

section \<open>Dataset handles\<close>

text \<open>
  Claim C9 says that every dataset handle, the inputs opened for reading included, is
  released before the operation returns. The code closes the output handle only. After
  a successful \<open>RasterCropper(job).execute()\<close>, started with no handle open, the read
  handle of the input raster, which the cropper object keeps, is still open.
\<close>

theorem input_handle_left_open_counterexample:
  "handles world1 = []
   \<and> fst (RasterCropper_run lib0 job_r world1) = Inr ()
   \<and> handles (snd (RasterCropper_run lib0 job_r world1)) = [(''r.tif'', ModeR)]"
  by (simp add: RasterCropper_run_job_r) (simp add: world1_def)

text \<open>
  Claim C9, amended. The output handle opened for writing is closed on every exit path
  of the write, also when writing raises: the write block leaves the open handles as it
  found them, so does \<open>execute()\<close> of every cropper, and after \<open>merge_raster\<close>, returned
  or raised, no write handle is open that was not open before. The input raster of a
  \<open>RasterCropper\<close> or \<open>BothCropper\<close> is opened at construction, kept on the cropper
  object, and not closed by \<open>execute()\<close>: it is still open when \<open>execute()\<close> returns or
  raises. Nothing is said here about the inputs of \<open>merge_raster\<close> after it returns:
  the code never closes them, and they are held by a local list only.
\<close>

theorem handles_after_operation:
  "handles (snd (write_raster lib path m arr s)) = handles s
   \<and> handles (snd (Cropper_execute lib c s)) = handles s
   \<and> (\<forall>rc s'. RasterCropper_new lib gd s = (Inr rc, s') \<longrightarrow>
        (\<exists>p. raster_path gd = Some p \<and> handles s' = handles s @ [(p, ModeR)]
           \<and> (p, ModeR) \<in> set (handles (snd (RasterCropper_execute lib rc s')))))
   \<and> (\<forall>bc s'. BothCropper_new lib gd s = (Inr bc, s') \<longrightarrow>
        (\<exists>p. raster_path gd = Some p \<and> handles s' = handles s @ [(p, ModeR)]
           \<and> (p, ModeR) \<in> set (handles (snd (BothCropper_execute lib bc s')))))
   \<and> filter (\<lambda>h. snd h = ModeW) (handles (snd (merge_raster lib ps out_path s)))
       = filter (\<lambda>h. snd h = ModeW) (handles s)"
proof (intro conjI allI impI)
  show "handles (snd (write_raster lib path m arr s)) = handles s"
    by (rule write_raster_handles)
  show "handles (snd (Cropper_execute lib c s)) = handles s"
    by (rule Cropper_execute_handles)
  show "\<exists>p. raster_path gd = Some p \<and> handles s' = handles s @ [(p, ModeR)]
           \<and> (p, ModeR) \<in> set (handles (snd (RasterCropper_execute lib rc s')))"
    if "RasterCropper_new lib gd s = (Inr rc, s')" for rc s'
  proof -
    from that obtain p where "raster_path gd = Some p"
      and "handles s' = handles s @ [(p, ModeR)]"
      by (cases "raster_path gd")
         (auto simp: RasterCropper_new_def raiseE_def thenE_def returnE_def
            rasterio_open_r_def split: sum.splits)
    then show ?thesis by (simp add: RasterCropper_execute_handles)
  qed
  show "\<exists>p. raster_path gd = Some p \<and> handles s' = handles s @ [(p, ModeR)]
           \<and> (p, ModeR) \<in> set (handles (snd (BothCropper_execute lib bc s')))"
    if "BothCropper_new lib gd s = (Inr bc, s')" for bc s'
  proof -
    from that obtain p where "raster_path gd = Some p"
      and "handles s' = handles s @ [(p, ModeR)]"
      by (cases "raster_path gd")
         (auto simp: BothCropper_new_def raiseE_def thenE_def returnE_def liftE_def
            rasterio_open_r_def split: sum.splits)
    then show ?thesis by (simp add: BothCropper_execute_handles)
  qed
  show "filter (\<lambda>h. snd h = ModeW) (handles (snd (merge_raster lib ps out_path s)))
       = filter (\<lambda>h. snd h = ModeW) (handles s)"
  proof -
    from merge_raster_handles [of ps lib out_path s] obtain k where
      "handles (snd (merge_raster lib ps out_path s))
         = handles s @ map (\<lambda>p. (p, ModeR)) (take k ps)" by blast
    then show ?thesis by (simp add: filter_map o_def)
  qed
qed

theorem handles_after_operation_witness:
  "RasterCropper_new lib0 job_r world1
     = (Inr \<lparr>rc_geo_data = job_r, rc_raster = ds0 ''r.tif''\<rparr>,
        world1\<lparr>handles := [(''r.tif'', ModeR)]\<rparr>)
   \<and> (\<exists>p. raster_path job_r = Some p
          \<and> (p, ModeR) \<in> set (handles (snd (RasterCropper_execute lib0
                \<lparr>rc_geo_data = job_r, rc_raster = ds0 ''r.tif''\<rparr>
                (world1\<lparr>handles := [(''r.tif'', ModeR)]\<rparr>)))))
   \<and> fst (write_raster lib_wfail ''out/x.tif'' meta_crop arr_crop world1)
       = Inl (LibraryError 9)
   \<and> handles (snd (write_raster lib_wfail ''out/x.tif'' meta_crop arr_crop world1)) = []"
proof -
  have new: "RasterCropper_new lib0 job_r world1
     = (Inr \<lparr>rc_geo_data = job_r, rc_raster = ds0 ''r.tif''\<rparr>,
        world1\<lparr>handles := [(''r.tif'', ModeR)]\<rparr>)"
    by (simp add: RasterCropper_new_def job_r_def thenE_def returnE_def rasterio_open_r_def
        lib0_simps world1_def)
  have wf: "fst (write_raster lib_wfail ''out/x.tif'' meta_crop arr_crop world1)
       = Inl (LibraryError 9)"
    by (simp add: write_raster_def lib_wfail_def lib0_def)
  have h0: "handles world1 = []" by (simp add: world1_def)
  note c = handles_after_operation [of lib_wfail "''out/x.tif''" meta_crop arr_crop world1
      "IsRasterCropper \<lparr>rc_geo_data = job_r, rc_raster = ds0 ''r.tif''\<rparr>" job_r "[]" None]
  from c h0
  have wh: "handles (snd (write_raster lib_wfail ''out/x.tif'' meta_crop arr_crop world1)) = []"
    by simp
  note d = handles_after_operation [of lib0 "''out/x.tif''" meta_crop arr_crop world1
      "IsRasterCropper \<lparr>rc_geo_data = job_r, rc_raster = ds0 ''r.tif''\<rparr>" job_r "[]" None]
  from d new
  have op: "\<exists>p. raster_path job_r = Some p
          \<and> (p, ModeR) \<in> set (handles (snd (RasterCropper_execute lib0
                \<lparr>rc_geo_data = job_r, rc_raster = ds0 ''r.tif''\<rparr>
                (world1\<lparr>handles := [(''r.tif'', ModeR)]\<rparr>))))"
    by blast
  show ?thesis using new op wf wh by blast
qed

end
